theory Spec2Isabelle
  imports Main "HOL-Library.Sublist"
begin

section \<open>Group management page: the membership action validator\<close>

text \<open>
  \<^verbatim>\<open>GroupCard\<close> and \<^verbatim>\<open>ActionCard\<close> receive the current membership, a row of the
  membership table together with its group and the group's member rows. The enum
  \<^verbatim>\<open>Role\<close> comes from the generated database client; its two members are the ones
  the data model names.
\<close>

datatype Role = ADMIN | MEMBER

record MembershipRow =
  rowId :: string
  role :: Role
  userId :: string
  groupId :: string

record Member = MembershipRow +
  user_name :: "string option"

record Group =
  members :: "Member list"

record Membership = MembershipRow +
  group :: Group

text \<open>
  The Remove button of a member row (\<^verbatim>\<open>GroupCard\<close>): its \<^verbatim>\<open>disabled\<close> attribute is
  \<^verbatim>\<open>member.role === Role.ADMIN || member.userId === membership.userId\<close>.
  The action can be taken when the button is enabled.
\<close>

definition removeDisabled :: "Membership \<Rightarrow> Member \<Rightarrow> bool" where
  "removeDisabled membership member =
     (role member = ADMIN \<or> userId member = userId membership)"

definition canRemoveMember :: "Membership \<Rightarrow> Member \<Rightarrow> bool" where
  "canRemoveMember membership member = (\<not> removeDisabled membership member)"

text \<open>
  The Delete button (\<^verbatim>\<open>ActionCard\<close>) is rendered only under
  \<^verbatim>\<open>membership.role === Role.ADMIN && (...)\<close>, and its \<^verbatim>\<open>disabled\<close> attribute is
  \<^verbatim>\<open>membership.role !== Role.ADMIN || membership.group.members.length > 1\<close>.
  The action can be taken when the button is rendered and enabled.
\<close>

definition deleteRendered :: "Membership \<Rightarrow> bool" where
  "deleteRendered membership = (role membership = ADMIN)"

definition deleteDisabled :: "Membership \<Rightarrow> bool" where
  "deleteDisabled membership =
     (role membership \<noteq> ADMIN \<or> length (members (group membership)) > 1)"

definition canDeleteGroup :: "Membership \<Rightarrow> bool" where
  "canDeleteGroup membership =
     (deleteRendered membership \<and> \<not> deleteDisabled membership)"

text \<open>
  The Leave button is always rendered; its \<^verbatim>\<open>disabled\<close> attribute is
  \<^verbatim>\<open>membership.role === Role.ADMIN\<close>.
\<close>

definition leaveDisabled :: "Membership \<Rightarrow> bool" where
  "leaveDisabled membership = (role membership = ADMIN)"

definition canLeaveGroup :: "Membership \<Rightarrow> bool" where
  "canLeaveGroup membership = (\<not> leaveDisabled membership)"


section \<open>Explore page: the profile match filter\<close>

subsection \<open>Data\<close>

text \<open>
  The enums \<^verbatim>\<open>School\<close>, \<^verbatim>\<open>Sex\<close>, \<^verbatim>\<open>Status\<close> and \<^verbatim>\<open>Volume\<close> are declared by the
  generated database client, which is not part of the page. They are type parameters
  here. At run time an enum value is the string of its member name, which is never
  empty, so every enum value that is present is truthy; the filter only compares enum
  values, except that it lower-cases the school. The string of a school is the parameter
  \<open>schoolName\<close> of the functions below.

  A field that may be \<^verbatim>\<open>null\<close> or \<^verbatim>\<open>undefined\<close> is an \<open>option\<close>. The page guards every
  enum field of the profile with \<^verbatim>\<open>!!profile.field\<close>, so these fields are options too,
  the school included.
\<close>

record User =
  name :: "string option"
  email :: "string option"
  user_image :: "string option"

record ('school, 'sex, 'status, 'volume) Profile =
  profileId :: string
  user :: User
  school :: "'school option"
  assigned_sex :: "'sex option"
  pronouns :: "string option"
  alcohol :: bool
  committed :: bool
  day_volume :: "'volume option"
  night_volume :: "'volume option"
  drugs :: bool
  neatness :: int
  snore :: bool
  social_energy_level :: int
  status :: "'status option"

text \<open>
  The filter criteria (\<^verbatim>\<open>z.infer<typeof ProfileSearchSchema>\<close>). The fields that share
  a name with a profile field carry the prefix \<open>filter_\<close>. \<open>None\<close> is an unset field.
\<close>

record ('school, 'sex, 'status, 'volume) FilterCriteria =
  filter_alcohol :: "bool option"
  filter_assigned_sex :: "'sex option"
  filter_committed :: "bool option"
  filter_day_volume :: "'volume option"
  filter_drugs :: "bool option"
  minimum_neatness :: "int option"
  filter_night_volume :: "'volume option"
  filter_school :: "'school option"
  filter_snore :: "bool option"
  minimum_social_energy_level :: "int option"
  filter_status :: "'status option"

text \<open>The state \<^verbatim>\<open>{}\<close> of the filter: every field unset.\<close>

definition emptyFilter :: "('school, 'sex, 'status, 'volume) FilterCriteria" where
  "emptyFilter =
     \<lparr>filter_alcohol = None, filter_assigned_sex = None, filter_committed = None,
      filter_day_volume = None, filter_drugs = None, minimum_neatness = None,
      filter_night_volume = None, filter_school = None, filter_snore = None,
      minimum_social_energy_level = None, filter_status = None\<rparr>"

subsection \<open>The operators of the page's expressions\<close>

text \<open>\<^verbatim>\<open>typeof x !== "undefined"\<close>\<close>

definition isDefined :: "'a option \<Rightarrow> bool" where
  "isDefined x = (x \<noteq> None)"

text \<open>\<^verbatim>\<open>!x\<close> on an optional boolean: \<^verbatim>\<open>undefined\<close> is falsy.\<close>

fun notB :: "bool option \<Rightarrow> bool" where
  "notB None = True"
| "notB (Some b) = (\<not> b)"

text \<open>\<^verbatim>\<open>!!x\<close> on an optional enum value.\<close>

fun truthy :: "'a option \<Rightarrow> bool" where
  "truthy None = False"
| "truthy (Some v) = True"

text \<open>\<^verbatim>\<open>x ?? d\<close>\<close>

fun nullish :: "'a option \<Rightarrow> 'a \<Rightarrow> 'a" where
  "nullish None d = d"
| "nullish (Some v) d = v"

text \<open>
  \<^verbatim>\<open>s.toLowerCase()\<close> is a built-in of the language, not code of the page: it applies
  the case mapping of Unicode to the whole string, and a mapped string need not have the
  length of the original. The case mapping is the parameter \<open>caseMap\<close> of the functions
  below, and nothing is assumed of it. The empty string has no character to map: its lower
  case is the empty string.
\<close>

definition toLowerCase :: "(string \<Rightarrow> string) \<Rightarrow> string \<Rightarrow> string" where
  "toLowerCase caseMap s = (if s = [] then [] else caseMap s)"

text \<open>\<^verbatim>\<open>s.includes(q)\<close>: \<open>q\<close> occurs in \<open>s\<close> as a contiguous run, at some position.\<close>

fun includes_str :: "string \<Rightarrow> string \<Rightarrow> bool" where
  "includes_str [] q = (q = [])"
| "includes_str (c # s) q = (prefix q (c # s) \<or> includes_str s q)"

text \<open>
  \<^verbatim>\<open>s?.toLowerCase().includes(query.toLowerCase())\<close>: on \<^verbatim>\<open>null\<close> the chain gives
  \<^verbatim>\<open>undefined\<close>, which \<^verbatim>\<open>||\<close> reads as false.
\<close>

fun optIncludes :: "(string \<Rightarrow> string) \<Rightarrow> string option \<Rightarrow> string \<Rightarrow> bool" where
  "optIncludes caseMap None query = False"
| "optIncludes caseMap (Some s) query =
     includes_str (toLowerCase caseMap s) (toLowerCase caseMap query)"

text \<open>A string that may be \<^verbatim>\<open>null\<close>, read as the empty string when it is.\<close>

abbreviation orEmpty :: "string option \<Rightarrow> string" where
  "orEmpty x \<equiv> (case x of None \<Rightarrow> [] | Some s \<Rightarrow> s)"

subsection \<open>The callback of \<^verbatim>\<open>profiles.filter\<close>\<close>

datatype error = TypeError

text \<open>
  The guards of the callback, in the order of the page: each one is an
  \<^verbatim>\<open>if (...) return false;\<close>. The result is \<open>True\<close> when one of them returns.
\<close>

definition excludedByFilter ::
  "('school, 'sex, 'status, 'volume) FilterCriteria \<Rightarrow>
   ('school, 'sex, 'status, 'volume) Profile \<Rightarrow> bool" where
  "excludedByFilter f p =
     (if isDefined (filter_alcohol f) \<and> notB (filter_alcohol f) \<and> alcohol p then True
      else if truthy (filter_assigned_sex f) \<and> truthy (assigned_sex p) \<and>
              filter_assigned_sex f \<noteq> assigned_sex p then True
      else if isDefined (filter_committed f) \<and> notB (filter_committed f) \<and> committed p
        then True
      else if truthy (filter_day_volume f) \<and> truthy (day_volume p) \<and>
              filter_day_volume f \<noteq> day_volume p then True
      else if isDefined (filter_drugs f) \<and> notB (filter_drugs f) \<and> drugs p then True
      else if nullish (minimum_neatness f) (- 10) + 10 > neatness p then True
      else if truthy (filter_night_volume f) \<and> truthy (night_volume p) \<and>
              filter_night_volume f \<noteq> night_volume p then True
      else if truthy (filter_school f) \<and> truthy (school p) \<and>
              filter_school f \<noteq> school p then True
      else if isDefined (filter_snore f) \<and> notB (filter_snore f) \<and> snore p then True
      else if nullish (minimum_social_energy_level f) (- 10) + 10 > social_energy_level p
        then True
      else if truthy (filter_status f) \<and> truthy (status p) \<and>
              filter_status f \<noteq> status p then True
      else False)"

text \<open>
  The final \<^verbatim>\<open>return\<close> of the callback. The name and the email are read through
  \<^verbatim>\<open>?.\<close>; the school is not, so \<^verbatim>\<open>profile.school.toLowerCase()\<close> raises a
  \<^verbatim>\<open>TypeError\<close> on a \<^verbatim>\<open>null\<close> school when \<^verbatim>\<open>||\<close> gets that far.
\<close>

definition textMatch ::
  "(string \<Rightarrow> string) \<Rightarrow> ('school \<Rightarrow> string) \<Rightarrow> string \<Rightarrow>
   ('school, 'sex, 'status, 'volume) Profile \<Rightarrow> error + bool" where
  "textMatch caseMap schoolName query p =
     (if optIncludes caseMap (name (user p)) query then Inr True
      else if optIncludes caseMap (email (user p)) query then Inr True
      else (case school p of
              None \<Rightarrow> Inl TypeError
            | Some s \<Rightarrow>
                Inr (includes_str (toLowerCase caseMap (schoolName s))
                       (toLowerCase caseMap query))))"

definition keepProfile ::
  "(string \<Rightarrow> string) \<Rightarrow> ('school \<Rightarrow> string) \<Rightarrow> string \<Rightarrow>
   ('school, 'sex, 'status, 'volume) FilterCriteria \<Rightarrow>
   ('school, 'sex, 'status, 'volume) Profile \<Rightarrow> error + bool" where
  "keepProfile caseMap schoolName query f p =
     (if excludedByFilter f p then Inr False else textMatch caseMap schoolName query p)"

text \<open>
  \<^verbatim>\<open>profiles.filter(callback)\<close>: the callback runs on each profile in order, the
  profiles it accepts are kept in that order, and an exception of the callback ends the
  whole evaluation.
\<close>

fun filterProfiles ::
  "(string \<Rightarrow> string) \<Rightarrow> ('school \<Rightarrow> string) \<Rightarrow>
   ('school, 'sex, 'status, 'volume) Profile list \<Rightarrow> string \<Rightarrow>
   ('school, 'sex, 'status, 'volume) FilterCriteria \<Rightarrow>
   error + ('school, 'sex, 'status, 'volume) Profile list" where
  "filterProfiles caseMap schoolName [] query f = Inr []"
| "filterProfiles caseMap schoolName (p # ps) query f =
     (case keepProfile caseMap schoolName query f p of
        Inl e \<Rightarrow> Inl e
      | Inr keep \<Rightarrow>
          (case filterProfiles caseMap schoolName ps query f of
             Inl e \<Rightarrow> Inl e
           | Inr kept \<Rightarrow> Inr (if keep then p # kept else kept)))"

subsection \<open>Sample data\<close>

text \<open>
  Concrete memberships and profiles for the examples. In them an enum value is the
  string of its member name, and \<open>schoolName\<close> is the identity. Their strings are
  ASCII, where the case mapping replaces the letters \<open>A\<close> to \<open>Z\<close> and leaves every
  other character as it is.
\<close>

definition lowerChar :: "char \<Rightarrow> char" where
  "lowerChar c =
     (case map_of (zip ''ABCDEFGHIJKLMNOPQRSTUVWXYZ'' ''abcdefghijklmnopqrstuvwxyz'') c of
        None \<Rightarrow> c
      | Some l \<Rightarrow> l)"

definition asciiLower :: "string \<Rightarrow> string" where
  "asciiLower s = map lowerChar s"

definition adminRow :: Member where
  "adminRow = \<lparr>rowId = ''m1'', role = ADMIN, userId = ''u1'', groupId = ''g1'',
               user_name = Some ''Ann''\<rparr>"

definition memberRow :: Member where
  "memberRow = \<lparr>rowId = ''m2'', role = MEMBER, userId = ''u2'', groupId = ''g1'',
                user_name = Some ''Bob''\<rparr>"

definition soleAdmin :: Membership where
  "soleAdmin = \<lparr>rowId = ''m1'', role = ADMIN, userId = ''u1'', groupId = ''g1'',
                group = \<lparr>members = [adminRow]\<rparr>\<rparr>"

definition adminOfTwo :: Membership where
  "adminOfTwo = \<lparr>rowId = ''m1'', role = ADMIN, userId = ''u1'', groupId = ''g1'',
                 group = \<lparr>members = [adminRow, memberRow]\<rparr>\<rparr>"

definition memberOfTwo :: Membership where
  "memberOfTwo = \<lparr>rowId = ''m2'', role = MEMBER, userId = ''u2'', groupId = ''g1'',
                  group = \<lparr>members = [adminRow, memberRow]\<rparr>\<rparr>"

definition soleMember :: Membership where
  "soleMember = \<lparr>rowId = ''m2'', role = MEMBER, userId = ''u2'', groupId = ''g1'',
                 group = \<lparr>members = [memberRow]\<rparr>\<rparr>"

definition alex :: "(string, string, string, string) Profile" where
  "alex = \<lparr>profileId = ''p1'',
            user = \<lparr>name = Some ''Alex'', email = Some ''a@x.com'', user_image = None\<rparr>,
            school = Some ''UCLA'', assigned_sex = Some ''FEMALE'', pronouns = None,
            alcohol = True, committed = False, day_volume = Some ''QUIET'',
            night_volume = None, drugs = False, neatness = 5, snore = False,
            social_energy_level = 7, status = Some ''LOOKING''\<rparr>"

definition blake :: "(string, string, string, string) Profile" where
  "blake = \<lparr>profileId = ''p2'',
             user = \<lparr>name = Some ''Blake'', email = None, user_image = None\<rparr>,
             school = Some ''USC'', assigned_sex = Some ''MALE'', pronouns = Some ''he/him'',
             alcohol = False, committed = True, day_volume = Some ''LOUD'',
             night_volume = Some ''LOUD'', drugs = False, neatness = 3, snore = True,
             social_energy_level = 2, status = None\<rparr>"

definition casey :: "(string, string, string, string) Profile" where
  "casey = \<lparr>profileId = ''p3'',
             user = \<lparr>name = None, email = Some ''casey@ucla.edu'', user_image = None\<rparr>,
             school = Some ''UCLA'', assigned_sex = None, pronouns = None,
             alcohol = False, committed = False, day_volume = None,
             night_volume = Some ''QUIET'', drugs = False, neatness = 8, snore = False,
             social_energy_level = 4, status = Some ''LOOKING''\<rparr>"

definition negativeScore :: "(string, string, string, string) Profile" where
  "negativeScore = alex\<lparr>neatness := - 1\<rparr>"

definition noSchool :: "(string, string, string, string) Profile" where
  "noSchool = alex\<lparr>user := \<lparr>name = None, email = None, user_image = None\<rparr>,
                   school := None\<rparr>"


section \<open>Properties\<close>

subsection \<open>Auxiliary facts\<close>

text \<open>\<open>includes_str\<close> is the contiguous-substring relation.\<close>

lemma includes_str_sublist: "includes_str s q = sublist q s"
proof (induction s)
  case Nil
  show ?case by (cases q) simp_all
next
  case (Cons c s)
  then show ?case by (cases q) (simp_all add: sublist_code)
qed

lemma includes_str_iff: "includes_str s q \<longleftrightarrow> (\<exists>a b. s = a @ q @ b)"
  by (simp add: includes_str_sublist sublist_def)

lemma includes_str_empty_query: "includes_str s []"
  by (cases s) simp_all

lemma toLowerCase_Nil: "toLowerCase lc [] = []"
  by (simp add: toLowerCase_def)

text \<open>The guards of the callback, read as conditions on the values.\<close>

lemma bool_guard: "(isDefined x \<and> notB x \<and> y) = (x = Some False \<and> y)"
  by (cases x) (auto simp: isDefined_def)

lemma enum_guard:
  "(truthy x \<and> truthy y \<and> x \<noteq> y) = (x \<noteq> None \<and> y \<noteq> None \<and> x \<noteq> y)"
  by (cases x; cases y) auto

lemma if_True_else: "(if c then True else r) = (c \<or> r)"
  by simp

lemma excludedByFilter_iff:
  "excludedByFilter f p \<longleftrightarrow>
     (filter_alcohol f = Some False \<and> alcohol p) \<or>
     (filter_assigned_sex f \<noteq> None \<and> assigned_sex p \<noteq> None \<and>
        filter_assigned_sex f \<noteq> assigned_sex p) \<or>
     (filter_committed f = Some False \<and> committed p) \<or>
     (filter_day_volume f \<noteq> None \<and> day_volume p \<noteq> None \<and>
        filter_day_volume f \<noteq> day_volume p) \<or>
     (filter_drugs f = Some False \<and> drugs p) \<or>
     nullish (minimum_neatness f) (- 10) + 10 > neatness p \<or>
     (filter_night_volume f \<noteq> None \<and> night_volume p \<noteq> None \<and>
        filter_night_volume f \<noteq> night_volume p) \<or>
     (filter_school f \<noteq> None \<and> school p \<noteq> None \<and> filter_school f \<noteq> school p) \<or>
     (filter_snore f = Some False \<and> snore p) \<or>
     nullish (minimum_social_energy_level f) (- 10) + 10 > social_energy_level p \<or>
     (filter_status f \<noteq> None \<and> status p \<noteq> None \<and> filter_status f \<noteq> status p)"
  unfolding excludedByFilter_def if_True_else bool_guard enum_guard
  by (simp only: simp_thms)


text \<open>The sample data and the definitions that a concrete evaluation unfolds.\<close>

lemmas sample_defs =
  alex_def blake_def casey_def negativeScore_def noSchool_def emptyFilter_def

lemmas eval_defs =
  keepProfile_def excludedByFilter_def textMatch_def toLowerCase_def asciiLower_def
  lowerChar_def isDefined_def

text \<open>
  The two score guards. When the guard does not fire, the verdict is the one of the
  remaining checks: the verdict for the same filter with the bound unset, on the same
  profile with the score 0, which such a filter lets through.
\<close>

lemma textMatch_neatness: "textMatch lc sn q (p\<lparr>neatness := v\<rparr>) = textMatch lc sn q p"
  by (simp add: textMatch_def)

lemma textMatch_social: "textMatch lc sn q (p\<lparr>social_energy_level := v\<rparr>) = textMatch lc sn q p"
  by (simp add: textMatch_def)

lemma excluded_neatness:
  "excludedByFilter f p \<longleftrightarrow>
     neatness p < nullish (minimum_neatness f) (- 10) + 10 \<or>
     excludedByFilter (f\<lparr>minimum_neatness := None\<rparr>) (p\<lparr>neatness := 0\<rparr>)"
  by (simp add: excludedByFilter_iff disj_ac)

lemma excluded_social:
  "excludedByFilter f p \<longleftrightarrow>
     social_energy_level p < nullish (minimum_social_energy_level f) (- 10) + 10 \<or>
     excludedByFilter (f\<lparr>minimum_social_energy_level := None\<rparr>)
       (p\<lparr>social_energy_level := 0\<rparr>)"
  by (simp add: excludedByFilter_iff disj_ac)

lemma keep_neatness:
  "keepProfile lc sn q f p =
     (if neatness p < nullish (minimum_neatness f) (- 10) + 10 then Inr False
      else keepProfile lc sn q (f\<lparr>minimum_neatness := None\<rparr>) (p\<lparr>neatness := 0\<rparr>))"
  unfolding keepProfile_def textMatch_neatness
  using excluded_neatness [of f p] by simp

lemma keep_social:
  "keepProfile lc sn q f p =
     (if social_energy_level p < nullish (minimum_social_energy_level f) (- 10) + 10
      then Inr False
      else keepProfile lc sn q (f\<lparr>minimum_social_energy_level := None\<rparr>)
             (p\<lparr>social_energy_level := 0\<rparr>))"
  unfolding keepProfile_def textMatch_social
  using excluded_social [of f p] by simp


text \<open>
  A boolean or an enum guard. When the guard does not fire, the verdict is the one for
  the same filter with that field unset.
\<close>

lemma keep_if:
  assumes "excludedByFilter f p \<longleftrightarrow> c \<or> excludedByFilter f' p"
  shows "keepProfile lc sn q f p = (if c then Inr False else keepProfile lc sn q f' p)"
  using assms by (simp add: keepProfile_def)

lemma excluded_alcohol:
  "excludedByFilter f p \<longleftrightarrow>
     (filter_alcohol f = Some False \<and> alcohol p) \<or>
     excludedByFilter (f\<lparr>filter_alcohol := None\<rparr>) p"
  by (simp add: excludedByFilter_iff disj_ac)

lemma excluded_committed:
  "excludedByFilter f p \<longleftrightarrow>
     (filter_committed f = Some False \<and> committed p) \<or>
     excludedByFilter (f\<lparr>filter_committed := None\<rparr>) p"
  by (simp add: excludedByFilter_iff disj_ac)

lemma excluded_drugs:
  "excludedByFilter f p \<longleftrightarrow>
     (filter_drugs f = Some False \<and> drugs p) \<or>
     excludedByFilter (f\<lparr>filter_drugs := None\<rparr>) p"
  by (simp add: excludedByFilter_iff disj_ac)

lemma excluded_snore:
  "excludedByFilter f p \<longleftrightarrow>
     (filter_snore f = Some False \<and> snore p) \<or>
     excludedByFilter (f\<lparr>filter_snore := None\<rparr>) p"
  by (simp add: excludedByFilter_iff disj_ac)

lemma excluded_assigned_sex:
  "excludedByFilter f p \<longleftrightarrow>
     (filter_assigned_sex f \<noteq> None \<and> assigned_sex p \<noteq> None \<and>
        filter_assigned_sex f \<noteq> assigned_sex p) \<or>
     excludedByFilter (f\<lparr>filter_assigned_sex := None\<rparr>) p"
  by (simp add: excludedByFilter_iff disj_ac)

lemma excluded_day_volume:
  "excludedByFilter f p \<longleftrightarrow>
     (filter_day_volume f \<noteq> None \<and> day_volume p \<noteq> None \<and>
        filter_day_volume f \<noteq> day_volume p) \<or>
     excludedByFilter (f\<lparr>filter_day_volume := None\<rparr>) p"
  by (simp add: excludedByFilter_iff disj_ac)

lemma excluded_night_volume:
  "excludedByFilter f p \<longleftrightarrow>
     (filter_night_volume f \<noteq> None \<and> night_volume p \<noteq> None \<and>
        filter_night_volume f \<noteq> night_volume p) \<or>
     excludedByFilter (f\<lparr>filter_night_volume := None\<rparr>) p"
  by (simp add: excludedByFilter_iff disj_ac)

lemma excluded_school:
  "excludedByFilter f p \<longleftrightarrow>
     (filter_school f \<noteq> None \<and> school p \<noteq> None \<and> filter_school f \<noteq> school p) \<or>
     excludedByFilter (f\<lparr>filter_school := None\<rparr>) p"
  by (simp add: excludedByFilter_iff disj_ac)

lemma excluded_status:
  "excludedByFilter f p \<longleftrightarrow>
     (filter_status f \<noteq> None \<and> status p \<noteq> None \<and> filter_status f \<noteq> status p) \<or>
     excludedByFilter (f\<lparr>filter_status := None\<rparr>) p"
  by (simp add: excludedByFilter_iff disj_ac)

text \<open>The guards do not read the user, and the empty filter leaves the two score guards.\<close>

lemma excluded_user_update: "excludedByFilter f (p\<lparr>user := u\<rparr>) = excludedByFilter f p"
  by (simp add: excludedByFilter_iff)

lemma excluded_emptyFilter:
  "excludedByFilter emptyFilter p \<longleftrightarrow> neatness p < 0 \<or> social_energy_level p < 0"
  by (simp add: excludedByFilter_iff emptyFilter_def)

text \<open>The final expression of the callback on a profile that has a school.\<close>

lemma textMatch_with_school:
  assumes "school p = Some s"
  shows "textMatch lc sn q p =
     Inr (optIncludes lc (name (user p)) q \<or> optIncludes lc (email (user p)) q \<or>
          includes_str (toLowerCase lc (sn s)) (toLowerCase lc q))"
  using assms by (simp add: textMatch_def)

text \<open>
  A \<^verbatim>\<open>null\<close> name or email against the empty string. The empty string contains the
  lower-cased query only when that is empty, and the case mapping of the language gives
  the empty string only for the empty string.
\<close>

lemma optIncludes_orEmpty:
  assumes "q = [] \<or> lc q \<noteq> []"
  shows "includes_str (toLowerCase lc (orEmpty x)) (toLowerCase lc q) \<longleftrightarrow>
     q = [] \<or> optIncludes lc x q"
  using assms by (cases x) (auto simp: toLowerCase_def includes_str_empty_query)

lemma textMatch_empty_query:
  "textMatch lc sn [] p =
     (if name (user p) = None \<and> email (user p) = None \<and> school p = None
      then Inl TypeError else Inr True)"
  by (cases "name (user p)"; cases "email (user p)"; cases "school p")
    (simp_all add: textMatch_def toLowerCase_Nil includes_str_empty_query)

text \<open>When the callback raises, and what \<^verbatim>\<open>filter\<close> returns.\<close>

lemma keepProfile_error_iff:
  "keepProfile lc sn q f p = Inl e \<longleftrightarrow>
     \<not> excludedByFilter f p \<and> \<not> optIncludes lc (name (user p)) q \<and>
     \<not> optIncludes lc (email (user p)) q \<and> school p = None"
  by (cases e) (simp add: keepProfile_def textMatch_def split: option.splits)

lemma filterProfiles_single:
  "filterProfiles lc sn [p] q f =
     (case keepProfile lc sn q f p of
        Inl e \<Rightarrow> Inl e
      | Inr keep \<Rightarrow> Inr (if keep then [p] else []))"
  by (simp split: sum.splits)

lemma filterProfiles_filter:
  "filterProfiles lc sn ps q f =
     (if \<exists>p \<in> set ps. keepProfile lc sn q f p = Inl TypeError then Inl TypeError
      else Inr (filter (\<lambda>p. keepProfile lc sn q f p = Inr True) ps))"
proof (induction ps)
  case Nil
  show ?case by simp
next
  case (Cons p ps)
  show ?case
  proof (cases "keepProfile lc sn q f p")
    case (Inl e)
    then show ?thesis by (cases e) simp
  next
    case (Inr keep)
    then show ?thesis using Cons.IH by simp
  qed
qed

lemma filterProfiles_with_schools:
  assumes "\<forall>p \<in> set ps. school p \<noteq> None"
  shows "filterProfiles lc sn ps q f = Inr (filter (\<lambda>p. keepProfile lc sn q f p = Inr True) ps)"
proof -
  have "\<not> (\<exists>p \<in> set ps. keepProfile lc sn q f p = Inl TypeError)"
    using assms by (auto simp: keepProfile_error_iff)
  then show ?thesis by (simp add: filterProfiles_filter)
qed


subsection \<open>The profile match filter\<close>

text \<open>
  In the statements below a profile is kept or dropped by \<open>keepProfile\<close>, the callback
  that \<open>filterProfiles\<close> runs on each profile. The page treats the school of a profile
  as a value that may be \<^verbatim>\<open>null\<close>, like the other enum fields: the guard of line 296 is
  \<^verbatim>\<open>!!filter.school && !!profile.school && ...\<close>. The final expression of the callback
  reads the name and the email through \<^verbatim>\<open>?.\<close> (lines 309 and 310) and the school
  without it (line 311).
\<close>

text \<open>
  C1. The score checks. The callback compares the score of the profile with the
  threshold \<^verbatim>\<open>(filter.minimum_X ?? -10) + 10\<close> and returns false exactly when the score
  is strictly below it, for the neatness and for the social energy level; when the score
  reaches the threshold the check has no further effect on the verdict. An unset bound
  gives the threshold 0. A profile of neatness 5 passes the check of the bound \<open>-5\<close>
  (threshold 5) and is excluded by the bound \<open>-4\<close> (threshold 6), whatever the query and
  the rest of the filter.
\<close>

theorem numeric_threshold:
  "keepProfile lc sn q f p =
     (if neatness p < nullish (minimum_neatness f) (- 10) + 10 then Inr False
      else keepProfile lc sn q (f\<lparr>minimum_neatness := None\<rparr>) (p\<lparr>neatness := 0\<rparr>)) \<and>
   keepProfile lc sn q f p =
     (if social_energy_level p < nullish (minimum_social_energy_level f) (- 10) + 10
      then Inr False
      else keepProfile lc sn q (f\<lparr>minimum_social_energy_level := None\<rparr>)
             (p\<lparr>social_energy_level := 0\<rparr>)) \<and>
   nullish None (- 10) + 10 = (0::int) \<and>
   (neatness p = 5 \<longrightarrow>
      keepProfile lc sn q (f\<lparr>minimum_neatness := Some (- 5)\<rparr>) p =
        keepProfile lc sn q (f\<lparr>minimum_neatness := None\<rparr>) (p\<lparr>neatness := 0\<rparr>)) \<and>
   (neatness p = 5 \<longrightarrow>
      keepProfile lc sn q (f\<lparr>minimum_neatness := Some (- 4)\<rparr>) p = Inr False)"
proof -
  have five: "keepProfile lc sn q (f\<lparr>minimum_neatness := Some (- 5)\<rparr>) p =
      keepProfile lc sn q (f\<lparr>minimum_neatness := None\<rparr>) (p\<lparr>neatness := 0\<rparr>)"
    if "neatness p = 5"
    using that keep_neatness [of lc sn q "f\<lparr>minimum_neatness := Some (- 5)\<rparr>" p] by simp
  have four: "keepProfile lc sn q (f\<lparr>minimum_neatness := Some (- 4)\<rparr>) p = Inr False"
    if "neatness p = 5"
    using that keep_neatness [of lc sn q "f\<lparr>minimum_neatness := Some (- 4)\<rparr>" p] by simp
  show ?thesis
    using keep_neatness [of lc sn q f p] keep_social [of lc sn q f p] five four by simp
qed

text \<open>
  The example of the specification: the profile \<open>alex\<close> has neatness 5; with an empty
  query and only the neatness bound set, the bound \<open>-5\<close> keeps it and \<open>-4\<close> drops it.
\<close>

theorem numeric_threshold_witness:
  "filterProfiles asciiLower (\<lambda>s. s) [alex] [] (emptyFilter\<lparr>minimum_neatness := Some (- 5)\<rparr>) =
     Inr [alex] \<and>
   filterProfiles asciiLower (\<lambda>s. s) [alex] [] (emptyFilter\<lparr>minimum_neatness := Some (- 4)\<rparr>) =
     Inr []"
  using
    numeric_threshold [of asciiLower "\<lambda>s. s" "[]" "emptyFilter\<lparr>minimum_neatness := Some (- 5)\<rparr>" alex]
    numeric_threshold [of asciiLower "\<lambda>s. s" "[]" "emptyFilter\<lparr>minimum_neatness := Some (- 4)\<rparr>" alex]
  by (simp add: sample_defs eval_defs)

text \<open>
  C2. The boolean fields alcohol, committed, drugs and snore. The callback drops a
  profile on such a field exactly when the filter sets the field to false and the field
  of the profile is true. In every other case (the filter says true, the filter leaves
  the field unset, or the field of the profile is false) the verdict is the one for the
  filter with that field unset: the field excludes nothing. In particular a profile with
  alcohol is dropped by every filter that says \<^verbatim>\<open>alcohol: false\<close>.
\<close>

theorem boolean_exclusion:
  "keepProfile lc sn q f p =
     (if filter_alcohol f = Some False \<and> alcohol p then Inr False
      else keepProfile lc sn q (f\<lparr>filter_alcohol := None\<rparr>) p) \<and>
   keepProfile lc sn q f p =
     (if filter_committed f = Some False \<and> committed p then Inr False
      else keepProfile lc sn q (f\<lparr>filter_committed := None\<rparr>) p) \<and>
   keepProfile lc sn q f p =
     (if filter_drugs f = Some False \<and> drugs p then Inr False
      else keepProfile lc sn q (f\<lparr>filter_drugs := None\<rparr>) p) \<and>
   keepProfile lc sn q f p =
     (if filter_snore f = Some False \<and> snore p then Inr False
      else keepProfile lc sn q (f\<lparr>filter_snore := None\<rparr>) p) \<and>
   (alcohol p \<longrightarrow> filterProfiles lc sn [p] q (f\<lparr>filter_alcohol := Some False\<rparr>) = Inr [])"
proof -
  have ex: "filterProfiles lc sn [p] q (f\<lparr>filter_alcohol := Some False\<rparr>) = Inr []"
    if "alcohol p"
    using that keep_if [OF excluded_alcohol, of lc sn q "f\<lparr>filter_alcohol := Some False\<rparr>" p]
    by (simp add: filterProfiles_single)
  show ?thesis
    using keep_if [OF excluded_alcohol, of lc sn q f p]
      keep_if [OF excluded_committed, of lc sn q f p]
      keep_if [OF excluded_drugs, of lc sn q f p]
      keep_if [OF excluded_snore, of lc sn q f p] ex
    by simp
qed

text \<open>
  The example of the specification: \<open>alex\<close> drinks; \<^verbatim>\<open>{alcohol: false}\<close> drops the
  profile, \<^verbatim>\<open>{alcohol: true}\<close> and the unset field keep it. \<open>blake\<close> does not drink and
  is kept by \<^verbatim>\<open>{alcohol: false}\<close>.
\<close>

theorem boolean_exclusion_witness:
  "alcohol alex \<and>
   filterProfiles asciiLower (\<lambda>s. s) [alex] [] (emptyFilter\<lparr>filter_alcohol := Some False\<rparr>) = Inr [] \<and>
   filterProfiles asciiLower (\<lambda>s. s) [alex] [] (emptyFilter\<lparr>filter_alcohol := Some True\<rparr>) =
     Inr [alex] \<and>
   filterProfiles asciiLower (\<lambda>s. s) [alex] [] (emptyFilter\<lparr>filter_alcohol := None\<rparr>) = Inr [alex] \<and>
   filterProfiles asciiLower (\<lambda>s. s) [blake] [] (emptyFilter\<lparr>filter_alcohol := Some False\<rparr>) =
     Inr [blake]"
  using
    boolean_exclusion [of asciiLower "\<lambda>s. s" "[]" "emptyFilter\<lparr>filter_alcohol := Some False\<rparr>" alex]
    boolean_exclusion [of asciiLower "\<lambda>s. s" "[]" "emptyFilter\<lparr>filter_alcohol := Some True\<rparr>" alex]
  by (simp add: sample_defs eval_defs)

text \<open>
  The free-text query on a single profile that passes every guard and has a school: the
  profile is returned exactly when the lower-cased query occurs in the lower-cased name,
  in the lower-cased email or in the lower-cased school, where a \<^verbatim>\<open>null\<close> name or email
  matches nothing. With the empty query the profile is returned. Replacing a \<^verbatim>\<open>null\<close>
  name by the empty string does not change the result, for a case mapping that gives
  the empty string only for the empty string.
\<close>

lemma filterProfiles_text_query:
  assumes "\<not> excludedByFilter f p" and "school p = Some s"
  shows "filterProfiles lc sn [p] q f =
     Inr (if optIncludes lc (name (user p)) q \<or> optIncludes lc (email (user p)) q \<or>
             includes_str (toLowerCase lc (sn s)) (toLowerCase lc q)
          then [p] else [])"
  using assms by (simp add: filterProfiles_single keepProfile_def textMatch_with_school)

lemma filterProfiles_empty_query:
  assumes "\<not> excludedByFilter f p" and "school p = Some s"
  shows "filterProfiles lc sn [p] [] f = Inr [p]"
  using filterProfiles_text_query [OF assms, of lc sn "[]"]
  by (simp add: toLowerCase_Nil includes_str_empty_query)

lemma filterProfiles_null_name:
  assumes "\<not> excludedByFilter f p" and "school p = Some s" and "q = [] \<or> lc q \<noteq> []"
    and "name (user p) = None"
  shows "filterProfiles lc sn [p\<lparr>user := (user p)\<lparr>name := Some []\<rparr>\<rparr>] q f =
     Inr (if filterProfiles lc sn [p] q f = Inr [p]
          then [p\<lparr>user := (user p)\<lparr>name := Some []\<rparr>\<rparr>] else [])"
proof -
  let ?p' = "p\<lparr>user := (user p)\<lparr>name := Some []\<rparr>\<rparr>"
  have e: "\<not> excludedByFilter f ?p'" and s: "school ?p' = Some s"
    using assms(1,2) by (simp_all add: excluded_user_update)
  have n: "optIncludes lc (Some []) q \<longleftrightarrow> q = []"
    using assms(3) by (auto simp: toLowerCase_def)
  show ?thesis
    unfolding filterProfiles_text_query [OF e s] filterProfiles_text_query [OF assms(1,2)]
    using assms(4) n by (auto simp: toLowerCase_Nil includes_str_empty_query)
qed


text \<open>
  C4. The enum fields assigned_sex, day_volume, night_volume, school and status. The
  callback drops a profile on such a field exactly when the value of the filter and the
  value of the profile are both present and differ. In every other case (the filter
  leaves the field unset, the profile has no value, or the two values are equal) the
  verdict is the one for the filter with that field unset: the field excludes nothing.
\<close>

theorem enum_equality:
  "keepProfile lc sn q f p =
     (if filter_assigned_sex f \<noteq> None \<and> assigned_sex p \<noteq> None \<and>
         filter_assigned_sex f \<noteq> assigned_sex p then Inr False
      else keepProfile lc sn q (f\<lparr>filter_assigned_sex := None\<rparr>) p) \<and>
   keepProfile lc sn q f p =
     (if filter_day_volume f \<noteq> None \<and> day_volume p \<noteq> None \<and>
         filter_day_volume f \<noteq> day_volume p then Inr False
      else keepProfile lc sn q (f\<lparr>filter_day_volume := None\<rparr>) p) \<and>
   keepProfile lc sn q f p =
     (if filter_night_volume f \<noteq> None \<and> night_volume p \<noteq> None \<and>
         filter_night_volume f \<noteq> night_volume p then Inr False
      else keepProfile lc sn q (f\<lparr>filter_night_volume := None\<rparr>) p) \<and>
   keepProfile lc sn q f p =
     (if filter_school f \<noteq> None \<and> school p \<noteq> None \<and>
         filter_school f \<noteq> school p then Inr False
      else keepProfile lc sn q (f\<lparr>filter_school := None\<rparr>) p) \<and>
   keepProfile lc sn q f p =
     (if filter_status f \<noteq> None \<and> status p \<noteq> None \<and>
         filter_status f \<noteq> status p then Inr False
      else keepProfile lc sn q (f\<lparr>filter_status := None\<rparr>) p)"
  using keep_if [OF excluded_assigned_sex, of lc sn q f p]
    keep_if [OF excluded_day_volume, of lc sn q f p]
    keep_if [OF excluded_night_volume, of lc sn q f p]
    keep_if [OF excluded_school, of lc sn q f p]
    keep_if [OF excluded_status, of lc sn q f p]
  by simp

text \<open>
  Three profiles: the school filter \<open>UCLA\<close> drops \<open>blake\<close> (school \<open>USC\<close>); the status
  filter \<open>LOOKING\<close> keeps \<open>blake\<close>, whose status is \<^verbatim>\<open>null\<close>; the day volume filter
  \<open>LOUD\<close> drops \<open>alex\<close> (\<open>QUIET\<close>) and keeps \<open>casey\<close>, who has no day volume.
\<close>

theorem enum_equality_witness:
  "filterProfiles asciiLower (\<lambda>s. s) [alex, blake, casey] []
     (emptyFilter\<lparr>filter_school := Some ''UCLA''\<rparr>) = Inr [alex, casey] \<and>
   filterProfiles asciiLower (\<lambda>s. s) [alex, blake, casey] []
     (emptyFilter\<lparr>filter_status := Some ''LOOKING''\<rparr>) = Inr [alex, blake, casey] \<and>
   filterProfiles asciiLower (\<lambda>s. s) [alex, blake, casey] []
     (emptyFilter\<lparr>filter_day_volume := Some ''LOUD''\<rparr>) = Inr [blake, casey]"
  using
    enum_equality [of asciiLower "\<lambda>s. s" "[]" "emptyFilter\<lparr>filter_school := Some ''UCLA''\<rparr>" blake]
    enum_equality [of asciiLower "\<lambda>s. s" "[]" "emptyFilter\<lparr>filter_status := Some ''LOOKING''\<rparr>" blake]
  by (simp add: sample_defs eval_defs)

text \<open>
  C5, as stated, fails: with every field of the filter unset the two score guards still
  compare the scores with the threshold 0, so a profile with a negative score is dropped.
\<close>

theorem unset_filter_counterexample:
  "filterProfiles asciiLower (\<lambda>s. s) [negativeScore] [] emptyFilter = Inr [] \<and>
   filterProfiles asciiLower (\<lambda>s. s) [negativeScore] [] emptyFilter \<noteq> Inr [negativeScore]"
  by (simp add: sample_defs eval_defs)

text \<open>
  C5, amended. With every field of the filter unset, the guards drop a profile exactly
  when its neatness or its social energy level is negative. The empty query and the
  unset filter return the profile, \<^verbatim>\<open>filterProfiles([P], "", {})\<close> is \<^verbatim>\<open>[P]\<close>, exactly
  when the two scores are at least 0 and the name, the email or the school is present;
  so they do for every profile whose scores are at least 0 and whose school is present.
\<close>

theorem unset_filter_keeps:
  "(excludedByFilter emptyFilter p \<longleftrightarrow> neatness p < 0 \<or> social_energy_level p < 0) \<and>
   (filterProfiles lc sn [p] [] emptyFilter = Inr [p] \<longleftrightarrow>
      0 \<le> neatness p \<and> 0 \<le> social_energy_level p \<and>
      (name (user p) \<noteq> None \<or> email (user p) \<noteq> None \<or> school p \<noteq> None)) \<and>
   (0 \<le> neatness p \<and> 0 \<le> social_energy_level p \<and> school p \<noteq> None \<longrightarrow>
      filterProfiles lc sn [p] [] emptyFilter = Inr [p])"
proof -
  have "filterProfiles lc sn [p] [] emptyFilter = Inr [p] \<longleftrightarrow>
      0 \<le> neatness p \<and> 0 \<le> social_energy_level p \<and>
      (name (user p) \<noteq> None \<or> email (user p) \<noteq> None \<or> school p \<noteq> None)"
    unfolding filterProfiles_single keepProfile_def textMatch_empty_query excluded_emptyFilter
    by auto
  then show ?thesis using excluded_emptyFilter [of p] by blast
qed

text \<open>The profile \<open>casey\<close> has the scores 8 and 4 and the school \<open>UCLA\<close>.\<close>

theorem unset_filter_keeps_witness:
  "0 \<le> neatness casey \<and> 0 \<le> social_energy_level casey \<and> school casey \<noteq> None \<and>
   \<not> excludedByFilter emptyFilter casey \<and>
   filterProfiles asciiLower (\<lambda>s. s) [casey] [] emptyFilter = Inr [casey]"
  using unset_filter_keeps [of casey asciiLower "\<lambda>s. s"]
  by (simp add: casey_def)

text \<open>
  C6. The result of \<open>filterProfiles\<close> is the input list filtered by the callback: the
  profiles that the callback accepts, each as often and in the order in which the input
  has it; this list is a subsequence of the input. The evaluation raises exactly when the
  callback raises on some profile of the input, which no profile with a school does.
\<close>

theorem stable_filter:
  "filterProfiles lc sn ps q f =
     (if \<exists>p \<in> set ps. keepProfile lc sn q f p = Inl TypeError then Inl TypeError
      else Inr (filter (\<lambda>p. keepProfile lc sn q f p = Inr True) ps)) \<and>
   ((\<forall>p \<in> set ps. school p \<noteq> None) \<longrightarrow>
      filterProfiles lc sn ps q f = Inr (filter (\<lambda>p. keepProfile lc sn q f p = Inr True) ps)) \<and>
   subseq (filter (\<lambda>p. keepProfile lc sn q f p = Inr True) ps) ps"
  using filterProfiles_filter [of lc sn ps q f] filterProfiles_with_schools [of ps lc sn q f]
  by simp

text \<open>
  The example of the specification: of \<open>[alex, blake, casey]\<close> the query \<open>ucla\<close> accepts
  \<open>alex\<close> and \<open>casey\<close>, and the result is \<open>[alex, casey]\<close>; on the reversed input it is
  \<open>[casey, alex]\<close>.
\<close>

theorem stable_filter_witness:
  "school alex \<noteq> None \<and> school blake \<noteq> None \<and> school casey \<noteq> None \<and>
   keepProfile asciiLower (\<lambda>s. s) ''ucla'' emptyFilter alex = Inr True \<and>
   keepProfile asciiLower (\<lambda>s. s) ''ucla'' emptyFilter blake = Inr False \<and>
   keepProfile asciiLower (\<lambda>s. s) ''ucla'' emptyFilter casey = Inr True \<and>
   filterProfiles asciiLower (\<lambda>s. s) [alex, blake, casey] ''ucla'' emptyFilter = Inr [alex, casey] \<and>
   filterProfiles asciiLower (\<lambda>s. s) [casey, blake, alex] ''ucla'' emptyFilter = Inr [casey, alex]"
proof -
  have k: "keepProfile asciiLower (\<lambda>s. s) ''ucla'' emptyFilter alex = Inr True"
    "keepProfile asciiLower (\<lambda>s. s) ''ucla'' emptyFilter blake = Inr False"
    "keepProfile asciiLower (\<lambda>s. s) ''ucla'' emptyFilter casey = Inr True"
    by (simp_all add: sample_defs eval_defs)
  have s: "school alex \<noteq> None" "school blake \<noteq> None" "school casey \<noteq> None"
    by (simp_all add: sample_defs)
  show ?thesis
    using k s stable_filter [of asciiLower "\<lambda>s. s" "[alex, blake, casey]" "''ucla''" emptyFilter]
      stable_filter [of asciiLower "\<lambda>s. s" "[casey, blake, alex]" "''ucla''" emptyFilter]
    by simp
qed

text \<open>
  Every error of \<open>filterProfiles\<close> comes from a profile without a school.
\<close>

lemma filterProfiles_error_school:
  assumes "filterProfiles lc sn ps q f = Inl e"
  shows "\<exists>p \<in> set ps. school p = None"
proof (rule ccontr)
  assume "\<not> (\<exists>p \<in> set ps. school p = None)"
  then have "\<forall>p \<in> set ps. school p \<noteq> None" by simp
  from filterProfiles_with_schools [OF this, of lc sn q f] assms show False by simp
qed



subsection \<open>The membership action validator\<close>

text \<open>
  C7. Deleting the group is permitted exactly when the role of the membership is
  \<open>ADMIN\<close> and the group has at most one member.
\<close>

theorem canDeleteGroup_iff:
  "canDeleteGroup m \<longleftrightarrow> role m = ADMIN \<and> length (members (group m)) \<le> 1"
  by (auto simp: canDeleteGroup_def deleteRendered_def deleteDisabled_def)

text \<open>
  An admin alone in the group may delete it; an admin of a group of two may not; a
  plain member alone in a group may not.
\<close>

theorem canDeleteGroup_iff_witness:
  "canDeleteGroup soleAdmin \<and> \<not> canDeleteGroup adminOfTwo \<and> \<not> canDeleteGroup soleMember"
  using canDeleteGroup_iff [of soleAdmin] canDeleteGroup_iff [of adminOfTwo]
    canDeleteGroup_iff [of soleMember]
  by (simp add: soleAdmin_def adminOfTwo_def soleMember_def)

text \<open>
  C8. Removing a member is permitted exactly when the target is not an admin and is
  not the acting user. The role of the acting membership plays no part.
\<close>

theorem canRemoveMember_iff:
  "canRemoveMember m t \<longleftrightarrow> role t \<noteq> ADMIN \<and> userId t \<noteq> userId m"
  by (simp add: canRemoveMember_def removeDisabled_def)

text \<open>
  In a group of an admin and a member: the admin may remove the member; nobody may
  remove the admin, the admin included; the member may not remove themself.
\<close>

theorem canRemoveMember_iff_witness:
  "canRemoveMember adminOfTwo memberRow \<and> \<not> canRemoveMember adminOfTwo adminRow \<and>
   \<not> canRemoveMember memberOfTwo adminRow \<and> \<not> canRemoveMember memberOfTwo memberRow"
  using canRemoveMember_iff [of adminOfTwo memberRow]
    canRemoveMember_iff [of adminOfTwo adminRow]
    canRemoveMember_iff [of memberOfTwo adminRow]
    canRemoveMember_iff [of memberOfTwo memberRow]
  by (simp add: adminOfTwo_def memberOfTwo_def adminRow_def memberRow_def)

text \<open>
  C10. An admin of a group with more than one member can neither delete the group nor
  leave it.
\<close>

theorem admin_with_members_no_exit:
  assumes "role m = ADMIN" and "length (members (group m)) > 1"
  shows "\<not> canDeleteGroup m \<and> \<not> canLeaveGroup m"
  using assms
  by (simp add: canDeleteGroup_def deleteDisabled_def canLeaveGroup_def leaveDisabled_def)

theorem admin_with_members_no_exit_witness:
  "role adminOfTwo = ADMIN \<and> length (members (group adminOfTwo)) > 1 \<and>
   \<not> canDeleteGroup adminOfTwo \<and> \<not> canLeaveGroup adminOfTwo"
proof -
  have r: "role adminOfTwo = ADMIN" by (simp add: adminOfTwo_def)
  have l: "length (members (group adminOfTwo)) > 1" by (simp add: adminOfTwo_def)
  show ?thesis using r l admin_with_members_no_exit [OF r l] by simp
qed

end
